theory Spec2Isabelle
  imports Main
begin

section \<open>Data model\<close>

text \<open>
  The CloudFront event types of \<open>aws-lambda\<close> as the code uses them. A header set is a
  JavaScript object from property names to either a list of \<open>{key?, value}\<close> entries or
  (as \<open>saveToCache\<close> also accepts) a plain string. A response status is a string
  (\<open>'200'\<close>) or a number (the status code of a caught error). An absent property
  (\<open>undefined\<close>) is \<open>None\<close>.
\<close>

record header_entry =
  key :: "string option"
  header_value :: string

datatype header = HeaderList "header_entry list" | HeaderString string

type_synonym cf_headers = "string \<rightharpoonup> header"

datatype status = StatusString string | StatusNumber int

record cf_response =
  status :: status
  statusDescription :: "string option"
  headers :: "cf_headers option"
  bodyEncoding :: "string option"
  body :: "string option"

record cf_origin =
  customHeaders :: cf_headers
  domainName :: string
  origin_path :: string

record cf_request =
  clientIp :: string
  http_method :: string
  uri :: string
  querystring :: string
  request_headers :: cf_headers
  request_origin :: "cf_origin option"

record cf_config =
  distributionId :: string
  eventType :: string

record cf_event =
  config :: cf_config
  request :: cf_request

record cf_response_event = cf_event +
  response :: "cf_response option"

text \<open>What a request-stage hook resolves to: nothing, a request, or a response.\<close>

datatype request_result = ResultNone | ResultRequest cf_request | ResultResponse cf_response

text \<open>
  Errors as values. \<open>NoResult\<close> is the control signal of \<open>errors\<close>; \<open>HttpError\<close>
  carries the status code and message its constructor receives; \<open>BoomError\<close> is an
  error of the Boom kind, which answers \<open>isBoom\<close> and carries its status code as
  \<open>output.statusCode\<close> (the sources construct none); \<open>TypeError\<close> and \<open>Error\<close>
  stand for the runtime's and the hooks' own errors.
\<close>

datatype error =
  NoResult | HttpError int string | BoomError int string | TypeError string | Error string

fun message :: "error \<Rightarrow> string" where
  "message NoResult = []"
| "message (HttpError c m) = m"
| "message (BoomError c m) = m"
| "message (TypeError m) = m"
| "message (Error m) = m"

text \<open>\<open>MethodNotAllowedError\<close> (errors/http): \<open>StatusCodes.METHOD_NOT_ALLOWED\<close> is 405.\<close>

definition MethodNotAllowedError :: "string \<Rightarrow> error" where
  "MethodNotAllowedError m = HttpError 405 m"

text \<open>
  Modelled from the spec: the class \<open>NotFoundError\<close> of \<open>errors/http\<close> is not among
  the source files. The spec's taxonomy gives \<open>NotFound\<close> the status 404; like
  \<open>MethodNotAllowedError\<close>, it hands its status code to the constructor of
  \<open>HttpError\<close>.
\<close>

definition NotFoundError :: "string \<Rightarrow> error" where
  "NotFoundError m = HttpError 404 m"

text \<open>
  What the sources show of an \<open>HttpError\<close> is the constructor call
  \<open>super(message, statusCode, lastError)\<close> and the field \<open>statusCode\<close> that the
  router's \<open>handleError\<close> reads: it has no \<open>isBoom\<close> and no \<open>output\<close> member, and
  neither have the runtime's errors. \<open>err.isBoom\<close> is therefore true of a \<open>BoomError\<close>
  only, and \<open>err.output.statusCode\<close>, which the resolver reads under that guard, is
  present for a \<open>BoomError\<close> only.
\<close>

fun isBoom :: "error \<Rightarrow> bool" where
  "isBoom (BoomError c m) = True"
| "isBoom e = False"

fun output_statusCode :: "error \<Rightarrow> int option" where
  "output_statusCode (BoomError c m) = Some c"
| "output_statusCode e = None"

record behavior =
  maxTTL :: int
  minTTL :: int
  defaultTTL :: int
  allowedMethods :: "string list"
  cachedMethods :: "string list"

section \<open>Cache service (class \<open>CacheService\<close> of services/cache.service.ts)\<close>

text \<open>
  The flat-cache object is a map from URI to entry. An entry's \<open>expire\<close> is the ISO
  string of a date; it is kept here as the date's milliseconds since the epoch, which
  \<open>Date.parse\<close> gives back. The clock (\<open>Date.now()\<close>, \<open>new Date()\<close>) is the
  argument \<open>now\<close>, in milliseconds. TTLs are integers, in seconds.
\<close>

record cache_entry =
  expire :: int
  entry_body :: "string option"

type_synonym flat_cache = "string \<rightharpoonup> cache_entry"

text \<open>
  \<open>parse-cache-control\<close> is a dependency, taken as a parameter: it maps a header value
  to \<open>null\<close> or to an object whose \<open>max-age\<close>, when present, is a number.
\<close>

record cache_control =
  max_age :: "int option"

type_synonym cache_control_parser = "string \<Rightarrow> cache_control option"

definition retrieveFromCache :: "int \<Rightarrow> 'a cf_event_scheme \<Rightarrow> flat_cache \<Rightarrow> string option \<times> flat_cache" where
  "retrieveFromCache now ev cache =
     (let u = uri (request ev) in
      case cache u of
        None \<Rightarrow> (None, cache)
      | Some result \<Rightarrow>
          if expire result > now then (entry_body result, cache)
          else (None, cache(u := None)))"

text \<open>Lines 41 to 48 of \<open>saveToCache\<close>: the string handed to the parser, if any.\<close>

definition cacheControlStr :: "cf_headers \<Rightarrow> string option" where
  "cacheControlStr hs =
     (case hs ''cache-control'' of
        None \<Rightarrow> None
      | Some (HeaderString s) \<Rightarrow> Some s
      | Some (HeaderList []) \<Rightarrow> Some []
      | Some (HeaderList (e # es)) \<Rightarrow> Some (header_value e))"

text \<open>
  Lines 39 to 53: the TTL before the bounds. An empty string is falsy, so the parser
  only sees a non-empty one; \<open>parsed?.['max-age'] || ttl\<close> keeps the default for a
  \<open>null\<close> result, an absent \<open>max-age\<close> and a \<open>max-age\<close> of 0.
\<close>

definition headerTTL :: "cache_control_parser \<Rightarrow> behavior \<Rightarrow> cf_headers option \<Rightarrow> int" where
  "headerTTL parseCacheControl b hdrs =
     (let ttl = defaultTTL b in
      case hdrs of
        None \<Rightarrow> ttl
      | Some hs \<Rightarrow>
          (case cacheControlStr hs of
             None \<Rightarrow> ttl
           | Some s \<Rightarrow>
               if s = [] then ttl
               else (case parseCacheControl s of
                       None \<Rightarrow> ttl
                     | Some parsed \<Rightarrow>
                         (case max_age parsed of
                            None \<Rightarrow> ttl
                          | Some n \<Rightarrow> if n \<noteq> 0 then n else ttl))))"

text \<open>Lines 55 to 59: the bounds.\<close>

definition boundTTL :: "behavior \<Rightarrow> int \<Rightarrow> int" where
  "boundTTL b ttl =
     (if ttl > maxTTL b then maxTTL b
      else if ttl < minTTL b then minTTL b
      else ttl)"

text \<open>
  \<open>saveToCache\<close>: destructuring an absent response is a \<open>TypeError\<close>; otherwise the
  entry is written under the request's URI, over any earlier one.
\<close>

definition saveToCache ::
  "cache_control_parser \<Rightarrow> int \<Rightarrow> cf_response_event \<Rightarrow> behavior \<Rightarrow> flat_cache \<Rightarrow> (error + unit) \<times> flat_cache" where
  "saveToCache parseCacheControl now ev b cache =
     (case response ev of
        None \<Rightarrow> (Inl (TypeError ''Cannot destructure property body of response''), cache)
      | Some r \<Rightarrow>
          (let ttl = boundTTL b (headerTTL parseCacheControl b (headers r)) in
           (Inr (), cache(uri (request ev) \<mapsto> \<lparr>expire = now + 1000 * ttl, entry_body = body r\<rparr>))))"

definition purge :: "flat_cache \<Rightarrow> flat_cache" where
  "purge cache = Map.empty"

section \<open>Origin resolver (class \<open>Origin\<close>)\<close>

text \<open>
  The Node platform the resolver calls, taken as parameters: the file system (a map
  from paths to nodes; \<open>fs.access\<close> succeeds on a path of its domain, \<open>lstat\<close>
  tells a regular file from anything else), \<open>url.parse(_).pathname\<close>, \<open>path.join\<close>,
  \<open>path.resolve\<close>, \<open>JSON.stringify\<close> (of an object, given as the list of its members),
  and the outbound HTTP request of \<open>getHttpResource\<close> as a whole.
\<close>

datatype fs_node = RegularFile string | NotRegular

datatype json = JNumber int | JString string

datatype origin_type = type_http | type_https | type_file | type_noop

record Origin =
  otype :: origin_type
  baseUrl :: string
  descriptor :: cf_origin

record platform =
  fs :: "string \<rightharpoonup> fs_node"
  url_pathname :: "string \<Rightarrow> string option"
  path_join :: "string \<Rightarrow> string \<Rightarrow> string"
  path_resolve :: "string \<Rightarrow> string"
  JSON_stringify :: "(string \<times> json) list \<Rightarrow> string"
  getHttpResource :: "Origin \<Rightarrow> cf_request \<Rightarrow> error + string"

record OriginCustomHeader =
  HeaderName :: string
  HeaderValue :: string

record CloudFrontOrigin =
  DomainName :: string
  Id :: string
  OriginCustomHeaders :: "OriginCustomHeader list option"
  OriginPath :: string

definition toLowerCase :: "string \<Rightarrow> string" where
  "toLowerCase s =
     map (\<lambda>c. let n = (of_char c :: nat) in if 65 \<le> n \<and> n \<le> 90 then char_of (n + 32) else c) s"

fun customHeadersOf :: "OriginCustomHeader list \<Rightarrow> cf_headers \<Rightarrow> cf_headers" where
  "customHeadersOf [] acc = acc"
| "customHeadersOf (h # hs) acc =
     customHeadersOf hs
       (acc(toLowerCase (HeaderName h) \<mapsto>
          HeaderList [\<lparr>key = Some (HeaderName h), header_value = HeaderValue h\<rparr>]))"

text \<open>
  The constructor. The descriptor's \<open>custom\<close> and \<open>s3\<close> members carry the same
  custom headers, domain name and path; the record keeps them once.
\<close>

definition new_Origin :: "platform \<Rightarrow> CloudFrontOrigin option \<Rightarrow> string \<Rightarrow> Origin" where
  "new_Origin env orig base =
     (let originPath0 = (case orig of None \<Rightarrow> ''/''
                         | Some c \<Rightarrow> if OriginPath c = [] then ''/'' else OriginPath c);
          t = (if base = [] then type_noop
               else if take 7 base = ''http://'' then type_http
               else if take 8 base = ''https://'' then type_https
               else type_file);
          hs = (case orig of None \<Rightarrow> Map.empty
                | Some c \<Rightarrow> (case OriginCustomHeaders c of None \<Rightarrow> Map.empty
                             | Some l \<Rightarrow> customHeadersOf l Map.empty))
      in \<lparr>otype = t,
          baseUrl = (if t = type_file then path_resolve env base else base),
          descriptor = \<lparr>customHeaders = hs,
                        domainName = (case orig of None \<Rightarrow> ''example.com''
                                      | Some c \<Rightarrow> if DomainName c = [] then ''example.com'' else DomainName c),
                        origin_path = (if t = type_file then base else originPath0)\<rparr>\<rparr>)"

definition init :: "Origin \<Rightarrow> cf_event \<Rightarrow> cf_event" where
  "init orig ev = ev\<lparr>request := (request ev)\<lparr>request_origin := Some (descriptor orig)\<rparr>\<rparr>"

definition fileTarget :: "platform \<Rightarrow> Origin \<Rightarrow> string \<Rightarrow> string" where
  "fileTarget env orig k =
     path_join env (baseUrl orig) (case url_pathname env k of None \<Rightarrow> [] | Some p \<Rightarrow> p)"

definition getFileResource :: "platform \<Rightarrow> Origin \<Rightarrow> string \<Rightarrow> error + string" where
  "getFileResource env orig k =
     (let target = fileTarget env orig k in
      case fs env target of
        None \<Rightarrow> Inl (NotFoundError (target @ '' does not exist.''))
      | Some NotRegular \<Rightarrow> Inl (NotFoundError (target @ '' is not a file.''))
      | Some (RegularFile contents) \<Rightarrow> Inr contents)"

definition getResource :: "platform \<Rightarrow> Origin \<Rightarrow> cf_request \<Rightarrow> error + string" where
  "getResource env orig req =
     (case otype orig of
        type_file \<Rightarrow> getFileResource env orig (uri req)
      | type_http \<Rightarrow> getHttpResource env orig req
      | type_https \<Rightarrow> getHttpResource env orig req
      | type_noop \<Rightarrow> Inl (NotFoundError (''Operation given as '' @ [CHR 0x27] @ ''noop'' @ [CHR 0x27])))"

definition jsonContentType :: cf_headers where
  "jsonContentType =
     [''content-type'' \<mapsto>
        HeaderList [\<lparr>key = Some ''content-type'', header_value = ''application/json''\<rparr>]]"

text \<open>
  \<open>retrieve\<close> catches every failure of \<open>getResource\<close> and answers with a response,
  whose status is \<open>err.isBoom ? err.output.statusCode : 500\<close> (an error that answers
  \<open>isBoom\<close> has the \<open>output\<close> member, so the \<open>None\<close> branch is never taken).
\<close>

definition retrieve :: "platform \<Rightarrow> Origin \<Rightarrow> cf_event \<Rightarrow> cf_response" where
  "retrieve env orig ev =
     (case getResource env orig (request ev) of
        Inr contents \<Rightarrow>
          \<lparr>status = StatusString ''200'', statusDescription = Some [],
           headers = Some jsonContentType, bodyEncoding = Some ''text'',
           body = Some contents\<rparr>
      | Inl err \<Rightarrow>
          (let code = (if isBoom err
                       then (case output_statusCode err of Some c \<Rightarrow> c | None \<Rightarrow> 500)
                       else 500) in
           \<lparr>status = StatusNumber code, statusDescription = Some (message err),
            headers = Some jsonContentType, bodyEncoding = Some ''text'',
            body = Some (JSON_stringify env
                     [(''code'', JNumber code), (''message'', JString (message err))])\<rparr>))"

section \<open>Function set (class \<open>FunctionSet\<close> of function-set.ts)\<close>

text \<open>
  A hook is a function of the event it is called with, to the result it resolves to or
  the error it rejects with (any error, \<open>NoResult\<close> included); events are immutable
  by convention, so a hook's writes to its event are not modelled. An unconfigured slot
  holds the identity handler of its kind.
\<close>

type_synonym request_handler = "cf_event \<Rightarrow> error + request_result"
type_synonym response_handler = "cf_response_event \<Rightarrow> error + cf_response option"

definition identityRequestHandler :: request_handler where
  "identityRequestHandler ev = Inr (ResultRequest (request ev))"

definition identityResponseHandler :: response_handler where
  "identityResponseHandler ev = Inr (response ev)"

record FunctionSet =
  pattern :: string
  regex :: "string \<Rightarrow> bool"
  origin :: Origin
  fnset_name :: string
  behavior :: behavior
  viewerRequest :: request_handler
  originRequest :: request_handler
  originResponse :: response_handler
  viewerResponse :: response_handler

definition defaultBehavior :: behavior where
  "defaultBehavior =
     \<lparr>maxTTL = 31536000, minTTL = 0, defaultTTL = 86400,
      allowedMethods = [''GET'', ''HEAD''], cachedMethods = [''GET'', ''HEAD'']\<rparr>"

record CloudFrontCacheBehavior =
  AllowedMethods :: "string list option"
  CachedMethods :: "string list option"
  DefaultTTL :: int
  MaxTTL :: int
  MinTTL :: int
  TargetOriginId :: string

definition mergeBehavior :: "CloudFrontCacheBehavior option \<Rightarrow> behavior" where
  "mergeBehavior cfg =
     (case cfg of
        None \<Rightarrow> defaultBehavior
      | Some c \<Rightarrow>
          \<lparr>maxTTL = (if MaxTTL c \<noteq> 0 then MaxTTL c else maxTTL defaultBehavior),
           minTTL = (if MinTTL c \<noteq> 0 then MinTTL c else minTTL defaultBehavior),
           defaultTTL = (if DefaultTTL c \<noteq> 0 then DefaultTTL c else defaultTTL defaultBehavior),
           allowedMethods = (case AllowedMethods c of None \<Rightarrow> allowedMethods defaultBehavior | Some l \<Rightarrow> l),
           cachedMethods = (case CachedMethods c of None \<Rightarrow> cachedMethods defaultBehavior | Some l \<Rightarrow> l)\<rparr>)"

text \<open>
  The constructor; \<open>glob-to-regexp\<close> is a dependency, taken as the parameter
  \<open>globToRegExp\<close>, a pattern's regular expression being its \<open>test\<close> predicate.
\<close>

definition new_FunctionSet ::
  "(string \<Rightarrow> string \<Rightarrow> bool) \<Rightarrow> string \<Rightarrow> Origin \<Rightarrow> string \<Rightarrow> CloudFrontCacheBehavior option \<Rightarrow> FunctionSet" where
  "new_FunctionSet globToRegExp pat orig nm cfg =
     \<lparr>pattern = pat, regex = globToRegExp pat, origin = orig, fnset_name = nm,
      behavior = mergeBehavior cfg,
      viewerRequest = identityRequestHandler, originRequest = identityRequestHandler,
      originResponse = identityResponseHandler, viewerResponse = identityResponseHandler\<rparr>"

text \<open>
  \<open>glob-to-regexp\<close> with its default options, on patterns without a backslash and
  paths without a line terminator: the expression is anchored at both ends, a run of
  \<open>*\<close> matches any string, every other character matches itself.
\<close>

fun globMatch :: "string \<Rightarrow> string \<Rightarrow> bool" where
  "globMatch [] s = (s = [])"
| "globMatch (c # p) [] = (c = CHR ''*'' \<and> globMatch p [])"
| "globMatch (c # p) (d # s) =
     (if c = CHR ''*'' then globMatch p (d # s) \<or> globMatch (c # p) s
      else c = d \<and> globMatch p s)"

section \<open>Lifecycle (class \<open>CloudFrontLifecycle\<close>)\<close>

text \<open>
  Modelled from the spec: \<open>isResponseResult\<close> and \<open>combineResult\<close> of \<open>utils\<close> are
  not among the source files. The spec classifies a request-stage result as a response
  when it has the response shape (carries a status code), and its event from
  stage response-at-origin onward is the request's event with the response attached.
  \<open>asResponse\<close> is the narrowing that TypeScript's type guard performs.
\<close>

fun isResponseResult :: "request_result \<Rightarrow> bool" where
  "isResponseResult (ResultResponse r) = True"
| "isResponseResult r = False"

fun asResponse :: "request_result \<Rightarrow> cf_response option" where
  "asResponse (ResultResponse r) = Some r"
| "asResponse r = None"

definition combineResult :: "cf_event \<Rightarrow> cf_response option \<Rightarrow> cf_response_event" where
  "combineResult ev result = \<lparr>config = config ev, request = request ev, response = result\<rparr>"

text \<open>
  The cache service object the lifecycle is constructed with: its two methods, over a
  store of any type, each of which may throw.
\<close>

record 's cache_service =
  retrieve_from_cache :: "cf_event \<Rightarrow> 's \<Rightarrow> (error + string option) \<times> 's"
  save_to_cache :: "cf_response_event \<Rightarrow> behavior \<Rightarrow> 's \<Rightarrow> (error + unit) \<times> 's"

text \<open>The \<open>CacheService\<close> class as such an object, with its clock reading \<open>now\<close>.\<close>

definition CacheService :: "cache_control_parser \<Rightarrow> int \<Rightarrow> flat_cache cache_service" where
  "CacheService parseCacheControl now =
     \<lparr>retrieve_from_cache =
        (\<lambda>ev cache. case retrieveFromCache now ev cache of (r, cache') \<Rightarrow> (Inr r, cache')),
      save_to_cache = saveToCache parseCacheControl now\<rparr>"

record 's CloudFrontLifecycle =
  disableCache :: bool
  fileService :: "'s cache_service"
  fnSet :: FunctionSet

text \<open>
  What a run mutates: its event, the cache store, and (for observation only) the list
  of calls made so far to the four hooks, the cache and the origin's \<open>retrieve\<close>, each
  with the error it threw, if any.
\<close>

datatype call =
  CallViewerRequest | CallViewerResponse | CallOriginRequest | CallOriginResponse
| CallCacheRetrieve | CallCacheSave | CallOriginRetrieve

record 's run_state =
  event :: cf_event
  store :: 's
  calls :: "(call \<times> error option) list"

fun threw :: "error + 'a \<Rightarrow> error option" where
  "threw (Inl err) = Some err"
| "threw (Inr v) = None"

definition withEventType :: "string \<Rightarrow> cf_event \<Rightarrow> cf_event" where
  "withEventType t ev = ev\<lparr>config := (config ev)\<lparr>eventType := t\<rparr>\<rparr>"

definition setEventType :: "string \<Rightarrow> 's run_state \<Rightarrow> 's run_state" where
  "setEventType t st = st\<lparr>event := withEventType t (event st)\<rparr>"

definition called :: "call \<Rightarrow> error + 'a \<Rightarrow> 's run_state \<Rightarrow> 's run_state" where
  "called c outcome st = st\<lparr>calls := calls st @ [(c, threw outcome)]\<rparr>"

definition onViewerResponse ::
  "'s CloudFrontLifecycle \<Rightarrow> cf_response option \<Rightarrow> 's run_state \<Rightarrow> (error + cf_response option) \<times> 's run_state" where
  "onViewerResponse lc result st =
     (let st1 = setEventType ''viewer-response'' st;
          ev = combineResult (event st1) result;
          outcome = viewerResponse (fnSet lc) ev
      in (outcome, called CallViewerResponse outcome st1))"

definition onViewerRequest ::
  "'s CloudFrontLifecycle \<Rightarrow> 's run_state \<Rightarrow> (error + cf_response option) \<times> 's run_state" where
  "onViewerRequest lc st =
     (let st1 = setEventType ''viewer-request'' st;
          outcome = viewerRequest (fnSet lc) (event st1);
          st2 = called CallViewerRequest outcome st1
      in case outcome of
           Inl err \<Rightarrow> (Inl err, st2)
         | Inr result \<Rightarrow>
             if isResponseResult result then onViewerResponse lc (asResponse result) st2
             else (Inl NoResult, st2))"

definition canCache :: "'s CloudFrontLifecycle \<Rightarrow> 's run_state \<Rightarrow> bool" where
  "canCache lc st =
     (if disableCache lc then False
      else http_method (request (event st)) \<in> set (cachedMethods (behavior (fnSet lc))))"

definition setHeader :: "string \<Rightarrow> header \<Rightarrow> cf_response \<Rightarrow> cf_response" where
  "setHeader n h r =
     r\<lparr>headers := Some ((case headers r of None \<Rightarrow> Map.empty | Some hs \<Rightarrow> hs)(n \<mapsto> h))\<rparr>"

definition xCache :: "string \<Rightarrow> header" where
  "xCache v = HeaderList [\<lparr>key = Some ''X-Cache'', header_value = v\<rparr>]"

text \<open>
  \<open>toResultResponse\<close> of \<open>utils\<close> is not among the source files and the spec does not
  describe it: it is the parameter \<open>toResultResponse\<close>, from a cached body to a response.
  An absent or empty cached body is falsy, hence a miss.
\<close>

definition onCache ::
  "(string \<Rightarrow> cf_response) \<Rightarrow> 's CloudFrontLifecycle \<Rightarrow> 's run_state \<Rightarrow> (error + cf_response option) \<times> 's run_state" where
  "onCache toResultResponse lc st =
     (if \<not> canCache lc st then (Inl NoResult, st)
      else
        (case retrieve_from_cache (fileService lc) (event st) (store st) of
           (r, cache') \<Rightarrow>
             (let st1 = called CallCacheRetrieve r (st\<lparr>store := cache'\<rparr>) in
              case r of
                Inl err \<Rightarrow> (Inl err, st1)
              | Inr None \<Rightarrow> (Inl NoResult, st1)
              | Inr (Some cached) \<Rightarrow>
                  if cached = [] then (Inl NoResult, st1)
                  else onViewerResponse lc
                         (Some (setHeader ''X-Cache'' (xCache ''Hit'') (toResultResponse cached))) st1)))"

definition onOrigin :: "platform \<Rightarrow> 's CloudFrontLifecycle \<Rightarrow> 's run_state \<Rightarrow> cf_response \<times> 's run_state" where
  "onOrigin env lc st =
     (retrieve env (origin (fnSet lc)) (event st),
      called CallOriginRetrieve (Inr ()) st)"

definition onOriginResponse ::
  "'s CloudFrontLifecycle \<Rightarrow> cf_response option \<Rightarrow> 's run_state \<Rightarrow> (error + cf_response option) \<times> 's run_state" where
  "onOriginResponse lc result st =
     (let st1 = setEventType ''origin-response'' st;
          ev = combineResult (event st1) result;
          outcome = originResponse (fnSet lc) ev
      in (outcome, called CallOriginResponse outcome st1))"

definition onOriginRequest ::
  "platform \<Rightarrow> 's CloudFrontLifecycle \<Rightarrow> 's run_state \<Rightarrow> (error + cf_response option) \<times> 's run_state" where
  "onOriginRequest env lc st =
     (let st1 = setEventType ''origin-request'' st;
          outcome = originRequest (fnSet lc) (event st1);
          st2 = called CallOriginRequest outcome st1
      in case outcome of
           Inl err \<Rightarrow> (Inl err, st2)
         | Inr result \<Rightarrow>
             if isResponseResult result then (Inr (asResponse result), st2)
             else (case onOrigin env lc st2 of
                     (resultFromOrigin, st3) \<Rightarrow> onOriginResponse lc (Some resultFromOrigin) st3))"

text \<open>Lines 138 to 140 of \<open>run\<close>: the store after the origin-request stage.\<close>

definition saveIfCacheable ::
  "'s CloudFrontLifecycle \<Rightarrow> cf_response option \<Rightarrow> 's run_state \<Rightarrow> (error + unit) \<times> 's run_state" where
  "saveIfCacheable lc result st =
     (if canCache lc st then
        (case save_to_cache (fileService lc) (combineResult (event st) result)
                (behavior (fnSet lc)) (store st) of
           (r, cache') \<Rightarrow> (r, called CallCacheSave r (st\<lparr>store := cache'\<rparr>)))
      else (Inr (), st))"

text \<open>Lines 142 to 147 of \<open>run\<close>: the last stage and the miss marker.\<close>

definition respondMiss ::
  "'s CloudFrontLifecycle \<Rightarrow> cf_response option \<Rightarrow> 's run_state \<Rightarrow> (error + cf_response option) \<times> 's run_state" where
  "respondMiss lc result st =
     (case onViewerResponse lc result st of
        (Inl err, st1) \<Rightarrow> (Inl err, st1)
      | (Inr None, st1) \<Rightarrow> (Inr None, st1)
      | (Inr (Some r), st1) \<Rightarrow> (Inr (Some (setHeader ''x-cache'' (xCache ''Miss'') r)), st1))"

text \<open>Lines 136 to 147 of \<open>run\<close>: what follows the two guarded stages.\<close>

definition throughOrigin ::
  "platform \<Rightarrow> 's CloudFrontLifecycle \<Rightarrow> 's run_state \<Rightarrow> (error + cf_response option) \<times> 's run_state" where
  "throughOrigin env lc st =
     (case onOriginRequest env lc st of
        (Inl err, st1) \<Rightarrow> (Inl err, st1)
      | (Inr result, st1) \<Rightarrow>
          (case saveIfCacheable lc result st1 of
             (Inl err, st2) \<Rightarrow> (Inl err, st2)
           | (Inr u, st2) \<Rightarrow> respondMiss lc result st2))"

text \<open>
  \<open>run\<close>. The log lines are left out, and with them the \<open>url\<close> argument, which only
  they use. A \<open>try\<close> block returns what its stage returns and
  rethrows every error but \<open>NoResult\<close>, after which the next stage starts from the
  state the failed stage left.
\<close>

definition run ::
  "platform \<Rightarrow> (string \<Rightarrow> cf_response) \<Rightarrow> 's CloudFrontLifecycle \<Rightarrow> 's run_state \<Rightarrow> (error + cf_response option) \<times> 's run_state" where
  "run env toResultResponse lc st =
     (let st0 = st\<lparr>event := init (origin (fnSet lc)) (event st)\<rparr> in
      if http_method (request (event st0)) \<notin> set (allowedMethods (behavior (fnSet lc)))
      then (Inl (MethodNotAllowedError ''Cloudfront method not allowed''), st0)
      else
        (case onViewerRequest lc st0 of
           (Inr r, st1) \<Rightarrow> (Inr r, st1)
         | (Inl err, st1) \<Rightarrow>
             if err \<noteq> NoResult then (Inl err, st1)
             else
               (case onCache toResultResponse lc st1 of
                  (Inr r, st2) \<Rightarrow> (Inr r, st2)
                | (Inl err2, st2) \<Rightarrow>
                    if err2 \<noteq> NoResult then (Inl err2, st2)
                    else throughOrigin env lc st2)))"

section \<open>Router (class \<open>BehaviorRouter\<close>)\<close>

text \<open>
  The \<open>behaviors\<close> map, in insertion order, and \<open>match\<close>. \<open>URL_pathname\<close> is the
  platform's \<open>new URL(url, 'http://localhost').pathname\<close>, which throws on a URL it
  cannot parse (\<open>None\<close>).
\<close>

type_synonym behaviors = "(string \<times> FunctionSet) list"

definition match :: "(string \<Rightarrow> string option) \<Rightarrow> behaviors \<Rightarrow> string option \<Rightarrow> error + FunctionSet option" where
  "match URL_pathname bs url =
     (case url of
        None \<Rightarrow> Inr None
      | Some u \<Rightarrow>
          if u = [] then Inr None
          else (case URL_pathname u of
                  None \<Rightarrow> Inl (TypeError ''Invalid URL'')
                | Some pathname \<Rightarrow>
                    (case find (\<lambda>(k, handler). regex handler pathname) bs of
                       Some (k, handler) \<Rightarrow> Inr (Some handler)
                     | None \<Rightarrow> Inr (map_of bs ''*''))))"

section \<open>Calls and the errors they threw\<close>



section \<open>Concrete inputs\<close>

text \<open>
  A platform for path-only URIs under \<open>/srv\<close>: \<open>url.parse\<close> gives the URI back as its
  path, \<open>path.join\<close> of a base without a trailing slash and a path with a leading one
  is their concatenation, \<open>path.resolve\<close> leaves an absolute path as it is, and
  \<open>JSON.stringify\<close> is written out for strings that need no escaping. No HTTP origin
  is reachable.
\<close>

fun natDigits :: "nat \<Rightarrow> string" where
  "natDigits n =
     (if n < 10 then [char_of (48 + n)] else natDigits (n div 10) @ [char_of (48 + n mod 10)])"

definition showInt :: "int \<Rightarrow> string" where
  "showInt i = (if i < 0 then CHR ''-'' # natDigits (nat (- i)) else natDigits (nat i))"

definition quoted :: "string \<Rightarrow> string" where
  "quoted s = [CHR 0x22] @ s @ [CHR 0x22]"

fun commaSeparated :: "string list \<Rightarrow> string" where
  "commaSeparated [] = []"
| "commaSeparated [x] = x"
| "commaSeparated (x # y # zs) = x @ '','' @ commaSeparated (y # zs)"

definition stringifyPlain :: "(string \<times> json) list \<Rightarrow> string" where
  "stringifyPlain members =
     ''{'' @ commaSeparated
        (map (\<lambda>(k, v). quoted k @ '':'' @ (case v of JNumber n \<Rightarrow> showInt n | JString t \<Rightarrow> quoted t))
           members) @ ''}''"

definition example_platform :: platform where
  "example_platform =
     \<lparr>fs = [''/srv/index.html'' \<mapsto> RegularFile ''<html></html>'', ''/srv/assets'' \<mapsto> NotRegular],
      url_pathname = (\<lambda>k. Some k),
      path_join = (\<lambda>base p. base @ p),
      path_resolve = (\<lambda>p. p),
      JSON_stringify = stringifyPlain,
      getHttpResource = (\<lambda>orig req. Inl (Error ''connect ECONNREFUSED''))\<rparr>"

definition example_event :: "string \<Rightarrow> string \<Rightarrow> cf_event" where
  "example_event m u =
     \<lparr>config = \<lparr>distributionId = ''EXAMPLE'', eventType = ''viewer-request''\<rparr>,
      request = \<lparr>clientIp = ''127.0.0.1'', http_method = m, uri = u, querystring = [],
                 request_headers = Map.empty, request_origin = None\<rparr>\<rparr>"

definition example_response :: "cf_headers option \<Rightarrow> string \<Rightarrow> cf_response" where
  "example_response hs b =
     \<lparr>status = StatusString ''200'', statusDescription = None, headers = hs,
      bodyEncoding = Some ''text'', body = Some b\<rparr>"

definition cacheControl :: "string \<Rightarrow> cf_headers option" where
  "cacheControl v =
     Some [''cache-control'' \<mapsto> HeaderList [\<lparr>key = Some ''Cache-Control'', header_value = v\<rparr>]]"

text \<open>
  \<open>parse-cache-control\<close> on the header values of the examples: each of them is a
  single \<open>max-age\<close> directive, read as its number. Other strings are not in the table.
\<close>

definition maxAgeTable :: cache_control_parser where
  "maxAgeTable v =
     map_option (\<lambda>n. \<lparr>max_age = Some n\<rparr>)
       (map_of [(''max-age=1000'', 1000), (''max-age=120'', 120), (''max-age=10'', 10),
                (''max-age=0'', 0)] v)"

definition example_policy :: behavior where
  "example_policy =
     \<lparr>maxTTL = 300, minTTL = 60, defaultTTL = 100,
      allowedMethods = [''GET'', ''HEAD''], cachedMethods = [''GET'', ''HEAD'']\<rparr>"

definition inverted_policy :: behavior where
  "inverted_policy =
     \<lparr>maxTTL = 50, minTTL = 100, defaultTTL = 200,
      allowedMethods = [''GET'', ''HEAD''], cachedMethods = [''GET'', ''HEAD'']\<rparr>"

text \<open>
  A lifecycle over the \<open>CacheService\<close> at clock reading 0, for a function set with the
  wildcard pattern, a file origin under \<open>/srv\<close>, the default policy and the two given
  request hooks; the response hooks are the identity handlers.
\<close>

definition example_fnSet :: "request_handler \<Rightarrow> request_handler \<Rightarrow> FunctionSet" where
  "example_fnSet vreq oreq =
     (new_FunctionSet globMatch ''*'' (new_Origin example_platform None ''/srv'') [] None)
       \<lparr>viewerRequest := vreq, originRequest := oreq\<rparr>"

definition example_lifecycle :: "request_handler \<Rightarrow> request_handler \<Rightarrow> flat_cache CloudFrontLifecycle" where
  "example_lifecycle vreq oreq =
     \<lparr>disableCache = False, fileService = CacheService maxAgeTable 0,
      fnSet = example_fnSet vreq oreq\<rparr>"

definition example_state :: "string \<Rightarrow> string \<Rightarrow> flat_cache \<Rightarrow> flat_cache run_state" where
  "example_state m u c = \<lparr>event = example_event m u, store = c, calls = []\<rparr>"

definition respondWith :: "cf_response \<Rightarrow> request_handler" where
  "respondWith r ev = Inr (ResultResponse r)"

definition failWith :: "error \<Rightarrow> request_handler" where
  "failWith err ev = Inl err"

definition movedPermanently :: cf_response where
  "movedPermanently =
     \<lparr>status = StatusString ''301'', statusDescription = Some ''Moved Permanently'',
      headers = None, bodyEncoding = None, body = None\<rparr>"

definition example_behaviors :: behaviors where
  "example_behaviors =
     [(''/images/*'', new_FunctionSet globMatch ''/images/*''
          (new_Origin example_platform None ''/srv/images'') ''images'' None),
      (''*'', new_FunctionSet globMatch ''*''
          (new_Origin example_platform None ''/srv'') [] None)]"

text \<open>
  Viewer-response hooks: one that rejects a redirect with \<open>NoResult\<close> and passes every
  other response on, and one that answers with a response of its own, whatever it is
  given. \<open>withViewerResponse\<close> puts a hook into a lifecycle's function set.
\<close>

definition rejectRedirect :: response_handler where
  "rejectRedirect ev =
     (case response ev of
        None \<Rightarrow> Inr None
      | Some r \<Rightarrow> if status r = StatusString ''301'' then Inl NoResult else Inr (Some r))"

definition replaceResponse :: "cf_response \<Rightarrow> response_handler" where
  "replaceResponse r ev = Inr (Some r)"

definition withViewerResponse :: "response_handler \<Rightarrow> 's CloudFrontLifecycle \<Rightarrow> 's CloudFrontLifecycle" where
  "withViewerResponse h lc = lc\<lparr>fnSet := (fnSet lc)\<lparr>viewerResponse := h\<rparr>\<rparr>"

section \<open>Cache service: the bounds of the TTL\<close>

lemma boundTTL_cases:
  "(t > maxTTL b \<longrightarrow> boundTTL b t = maxTTL b) \<and>
   (t \<le> maxTTL b \<and> t < minTTL b \<longrightarrow> boundTTL b t = minTTL b) \<and>
   (t \<le> maxTTL b \<and> minTTL b \<le> t \<longrightarrow> boundTTL b t = t) \<and>
   (minTTL b \<le> maxTTL b \<longrightarrow> minTTL b \<le> boundTTL b t \<and> boundTTL b t \<le> maxTTL b)"
  by (auto simp: boundTTL_def)

lemma saveToCache_Some:
  "response ev = Some r \<Longrightarrow>
   saveToCache parseCC now ev b c =
     (Inr (), c(uri (request ev) \<mapsto>
        \<lparr>expire = now + 1000 * boundTTL b (headerTTL parseCC b (headers r)), entry_body = body r\<rparr>))"
  by (simp add: saveToCache_def)

lemma headerTTL_max_age:
  assumes "cacheControlStr hs = Some v" and "v \<noteq> []"
    and "parseCC v = Some parsed" and "max_age parsed = Some n" and "n \<noteq> 0"
  shows "headerTTL parseCC b (Some hs) = n"
  using assms by (simp add: headerTTL_def)

lemma headerTTL_no_cache_control:
  "headerTTL parseCC b None = defaultTTL b"
  "hs ''cache-control'' = None \<Longrightarrow> headerTTL parseCC b (Some hs) = defaultTTL b"
  by (simp_all add: headerTTL_def cacheControlStr_def)

lemma cacheControlStr_cacheControl [simp]:
  "cacheControlStr (the (cacheControl v)) = Some v"
  by (simp add: cacheControlStr_def cacheControl_def)

lemma headerTTL_examples:
  "boundTTL example_policy (headerTTL maxAgeTable example_policy (cacheControl ''max-age=1000'')) = 300"
  "boundTTL example_policy (headerTTL maxAgeTable example_policy (cacheControl ''max-age=10'')) = 60"
  "boundTTL example_policy (headerTTL maxAgeTable example_policy None) = 100"
  by (simp_all add: headerTTL_def cacheControlStr_def cacheControl_def maxAgeTable_def
      example_policy_def boundTTL_def)

text \<open>
  C3, as the code has it. The TTL that \<open>saveToCache\<close> stores is bounded by the max
  bound first, and the min bound is applied only to a TTL that the max bound left
  alone: a TTL above \<open>maxTTL\<close> becomes \<open>maxTTL\<close>; a TTL not above \<open>maxTTL\<close> and below
  \<open>minTTL\<close> is raised to \<open>minTTL\<close>, also when \<open>minTTL > maxTTL\<close>; any other TTL is
  kept. The stored TTL lies between the two bounds whenever \<open>minTTL \<le> maxTTL\<close>.
\<close>

theorem saveToCache_ttl_bounds:
  assumes "response ev = Some r"
  shows "\<exists>ttl. saveToCache parseCC now ev b c =
            (Inr (), c(uri (request ev) \<mapsto> \<lparr>expire = now + 1000 * ttl, entry_body = body r\<rparr>)) \<and>
          (headerTTL parseCC b (headers r) > maxTTL b \<longrightarrow> ttl = maxTTL b) \<and>
          (headerTTL parseCC b (headers r) \<le> maxTTL b \<and> headerTTL parseCC b (headers r) < minTTL b
             \<longrightarrow> ttl = minTTL b) \<and>
          (headerTTL parseCC b (headers r) \<le> maxTTL b \<and> minTTL b \<le> headerTTL parseCC b (headers r)
             \<longrightarrow> ttl = headerTTL parseCC b (headers r)) \<and>
          (minTTL b \<le> maxTTL b \<longrightarrow> minTTL b \<le> ttl \<and> ttl \<le> maxTTL b)"
  using saveToCache_Some [OF assms, of parseCC now b c]
    boundTTL_cases [where t = "headerTTL parseCC b (headers r)" and b = b]
  by blast

theorem saveToCache_ttl_bounds_witness:
  "response (combineResult (example_event ''GET'' ''/a'')
      (Some (example_response (cacheControl ''max-age=10'') ''hello''))) =
     Some (example_response (cacheControl ''max-age=10'') ''hello'') \<and>
   saveToCache maxAgeTable 0
      (combineResult (example_event ''GET'' ''/a'')
         (Some (example_response (cacheControl ''max-age=10'') ''hello'')))
      example_policy Map.empty =
     (Inr (), [''/a'' \<mapsto> \<lparr>expire = 60000, entry_body = Some ''hello''\<rparr>])"
proof -
  let ?r = "example_response (cacheControl ''max-age=10'') ''hello''"
  let ?ev = "combineResult (example_event ''GET'' ''/a'') (Some ?r)"
  have h: "response ?ev = Some ?r" by (simp add: combineResult_def)
  have t: "headerTTL maxAgeTable example_policy (headers ?r) = 10"
    by (simp add: headerTTL_def example_response_def maxAgeTable_def cacheControl_def
        cacheControlStr_def)
  have u: "uri (request ?ev) = ''/a''" by (simp add: combineResult_def example_event_def)
  have b: "body ?r = Some ''hello''" by (simp add: example_response_def)
  have m: "maxTTL example_policy = 300" "minTTL example_policy = 60"
    by (simp_all add: example_policy_def)
  from saveToCache_ttl_bounds [OF h, of maxAgeTable 0 example_policy Map.empty]
  obtain ttl where s: "saveToCache maxAgeTable 0 ?ev example_policy Map.empty =
      (Inr (), Map.empty(uri (request ?ev) \<mapsto> \<lparr>expire = 0 + 1000 * ttl, entry_body = body ?r\<rparr>))"
    and raise: "headerTTL maxAgeTable example_policy (headers ?r) \<le> maxTTL example_policy \<and>
        headerTTL maxAgeTable example_policy (headers ?r) < minTTL example_policy \<longrightarrow>
        ttl = minTTL example_policy"
    by blast
  from raise have "ttl = 60" by (simp add: t m)
  with s h show ?thesis by (simp add: u b)
qed

theorem saveToCache_min_bound_counterexample:
  "headerTTL maxAgeTable inverted_policy (headers (example_response None ''hello'')) = 200 \<and>
   maxTTL inverted_policy = 50 \<and> minTTL inverted_policy = 100 \<and>
   saveToCache maxAgeTable 0
      (combineResult (example_event ''GET'' ''/a'') (Some (example_response None ''hello'')))
      inverted_policy Map.empty =
     (Inr (), [''/a'' \<mapsto> \<lparr>expire = 50000, entry_body = Some ''hello''\<rparr>])"
  by (simp add: saveToCache_def combineResult_def example_event_def example_response_def
      inverted_policy_def headerTTL_def boundTTL_def)

text \<open>
  C4, at a response whose \<open>cache-control\<close> is \<open>max-age=0\<close>, under the policy
  \<open>{min: 60, max: 300, default: 100}\<close>: the TTL before the bounds is the default, 100,
  not the directive's 0, and the entry is stored for 100 seconds, not for the 60 that
  the bounds make of 0.
\<close>

theorem saveToCache_max_age_zero:
  "maxAgeTable ''max-age=0'' = Some \<lparr>max_age = Some 0\<rparr> \<and>
   headerTTL maxAgeTable example_policy (cacheControl ''max-age=0'') = 100 \<and>
   boundTTL example_policy 0 = 60 \<and>
   saveToCache maxAgeTable 0
      (combineResult (example_event ''GET'' ''/a'')
         (Some (example_response (cacheControl ''max-age=0'') ''hello'')))
      example_policy Map.empty =
     (Inr (), [''/a'' \<mapsto> \<lparr>expire = 100000, entry_body = Some ''hello''\<rparr>])"
  by (simp add: saveToCache_def combineResult_def example_event_def example_response_def
      example_policy_def headerTTL_def boundTTL_def maxAgeTable_def cacheControl_def
      cacheControlStr_def)

section \<open>Cache service: lookup\<close>

lemma boundTTL_at_least:
  "n \<le> maxTTL b \<Longrightarrow> n \<le> boundTTL b n"
  by (simp add: boundTTL_def)

text \<open>
  C5. \<open>retrieveFromCache\<close> returns the stored body when the URI has an entry and the
  clock is strictly before its expiry, and leaves the store alone; when the entry has
  expired it deletes the entry and returns nothing, which is what it returns, and the
  store it leaves, when started without the entry; without an entry it returns nothing.
  An entry stored at \<open>t0\<close> from a response whose \<open>cache-control\<close> is read as
  \<open>max-age\<close> 120, under a policy whose \<open>maxTTL\<close> is at least 120, is returned with
  the response's body by every lookup of the same URI before \<open>t0\<close> plus 120 seconds.
\<close>

theorem retrieveFromCache_lookup:
  fixes ev :: cf_event and sev :: cf_response_event
  shows
    "(\<forall>e. c (uri (request ev)) = Some e \<and> now < expire e \<longrightarrow>
        retrieveFromCache now ev c = (entry_body e, c)) \<and>
     (\<forall>e. c (uri (request ev)) = Some e \<and> \<not> now < expire e \<longrightarrow>
        retrieveFromCache now ev c = (None, c(uri (request ev) := None)) \<and>
        retrieveFromCache now ev (c(uri (request ev) := None)) = (None, c(uri (request ev) := None))) \<and>
     (c (uri (request ev)) = None \<longrightarrow> retrieveFromCache now ev c = (None, c)) \<and>
     (response sev = Some r \<and> headers r = Some hs \<and> cacheControlStr hs = Some v \<and> v \<noteq> [] \<and>
      parseCC v = Some parsed \<and> max_age parsed = Some 120 \<and> 120 \<le> maxTTL b \<and>
      uri (request ev) = uri (request sev) \<and> t1 < t0 + 120000 \<longrightarrow>
        retrieveFromCache t1 ev (snd (saveToCache parseCC t0 sev b c)) =
          (body r, snd (saveToCache parseCC t0 sev b c)))"
proof (intro conjI allI impI)
  fix e assume "c (uri (request ev)) = Some e \<and> now < expire e"
  then show "retrieveFromCache now ev c = (entry_body e, c)"
    by (simp add: retrieveFromCache_def)
next
  fix e assume "c (uri (request ev)) = Some e \<and> \<not> now < expire e"
  then show "retrieveFromCache now ev c = (None, c(uri (request ev) := None))"
    by (simp add: retrieveFromCache_def)
next
  fix e
  show "retrieveFromCache now ev (c(uri (request ev) := None)) = (None, c(uri (request ev) := None))"
    by (simp add: retrieveFromCache_def)
next
  assume "c (uri (request ev)) = None"
  then show "retrieveFromCache now ev c = (None, c)"
    by (simp add: retrieveFromCache_def)
next
  assume a: "response sev = Some r \<and> headers r = Some hs \<and> cacheControlStr hs = Some v \<and> v \<noteq> [] \<and>
      parseCC v = Some parsed \<and> max_age parsed = Some 120 \<and> 120 \<le> maxTTL b \<and>
      uri (request ev) = uri (request sev) \<and> t1 < t0 + 120000"
  then have t: "headerTTL parseCC b (headers r) = 120"
    using headerTTL_max_age [of hs v parseCC parsed 120 b] by simp
  have "120 \<le> boundTTL b 120" using a boundTTL_at_least by blast
  then have "t1 < t0 + 1000 * boundTTL b 120" using a by linarith
  then show "retrieveFromCache t1 ev (snd (saveToCache parseCC t0 sev b c)) =
          (body r, snd (saveToCache parseCC t0 sev b c))"
    using a t by (simp add: saveToCache_Some retrieveFromCache_def)
qed

theorem retrieveFromCache_lookup_witness:
  "retrieveFromCache 119999 (example_event ''GET'' ''/a'')
      (snd (saveToCache maxAgeTable 0
         (combineResult (example_event ''GET'' ''/a'')
            (Some (example_response (cacheControl ''max-age=120'') ''hello'')))
         defaultBehavior Map.empty)) =
     (Some ''hello'', [''/a'' \<mapsto> \<lparr>expire = 120000, entry_body = Some ''hello''\<rparr>]) \<and>
   retrieveFromCache 120000 (example_event ''GET'' ''/a'')
      [''/a'' \<mapsto> \<lparr>expire = 120000, entry_body = Some ''hello''\<rparr>] = (None, Map.empty) \<and>
   retrieveFromCache 120000 (example_event ''GET'' ''/a'') Map.empty = (None, Map.empty)"
proof -
  let ?ev = "example_event ''GET'' ''/a''"
  let ?r = "example_response (cacheControl ''max-age=120'') ''hello''"
  let ?sev = "combineResult ?ev (Some ?r)"
  let ?c = "[''/a'' \<mapsto> \<lparr>expire = 120000, entry_body = Some ''hello''\<rparr>]"
  have u: "uri (request ?ev) = ''/a''" by (simp add: example_event_def)
  have s: "snd (saveToCache maxAgeTable 0 ?sev defaultBehavior Map.empty) = ?c"
    by (simp add: saveToCache_def combineResult_def example_event_def example_response_def
        defaultBehavior_def headerTTL_def boundTTL_def maxAgeTable_def cacheControl_def
        cacheControlStr_def)
  have h: "response ?sev = Some ?r \<and> headers ?r = cacheControl ''max-age=120'' \<and>
      cacheControlStr (the (cacheControl ''max-age=120'')) = Some ''max-age=120'' \<and>
      ''max-age=120'' \<noteq> [] \<and> maxAgeTable ''max-age=120'' = Some \<lparr>max_age = Some 120\<rparr> \<and>
      max_age \<lparr>max_age = Some 120\<rparr> = Some 120 \<and> 120 \<le> maxTTL defaultBehavior \<and>
      uri (request ?ev) = uri (request ?sev) \<and> (119999::int) < 0 + 120000"
    by (simp add: combineResult_def example_response_def maxAgeTable_def defaultBehavior_def)
  note inst = retrieveFromCache_lookup [where ev = ?ev and sev = ?sev and r = ?r
      and hs = "the (cacheControl ''max-age=120'')" and v = "''max-age=120''"
      and parseCC = maxAgeTable and parsed = "\<lparr>max_age = Some 120\<rparr>"
      and b = defaultBehavior and ?t1.0 = 119999 and ?t0.0 = 0 and c = Map.empty]
  have hit: "retrieveFromCache 119999 ?ev (snd (saveToCache maxAgeTable 0 ?sev defaultBehavior Map.empty)) =
      (body ?r, snd (saveToCache maxAgeTable 0 ?sev defaultBehavior Map.empty))"
    using inst h by (simp add: cacheControl_def)
  have expired: "retrieveFromCache 120000 ?ev ?c = (None, ?c(uri (request ?ev) := None))"
    using retrieveFromCache_lookup [where c = ?c and ev = ?ev and now = 120000] by (simp add: u)
  have miss: "retrieveFromCache 120000 ?ev Map.empty = (None, Map.empty)"
    using retrieveFromCache_lookup [where c = Map.empty and ev = ?ev and now = 120000] by simp
  show ?thesis using hit [unfolded s] expired miss unfolding s by (simp add: u example_response_def)
qed

section \<open>Lifecycle: states\<close>

lemma run_state_simps [simp]:
  "event (called c out st) = event st"
  "store (called c out st) = store st"
  "calls (called c out st) = calls st @ [(c, threw out)]"
  "event (setEventType t st) = withEventType t (event st)"
  "store (setEventType t st) = store st"
  "calls (setEventType t st) = calls st"
  by (simp_all add: called_def setEventType_def)

lemma request_withEventType [simp]: "request (withEventType t ev) = request ev"
  by (simp add: withEventType_def)

lemma http_method_init [simp]: "http_method (request (init orig ev)) = http_method (request ev)"
  by (simp add: init_def)

lemma uri_init [simp]: "uri (request (init orig ev)) = uri (request ev)"
  by (simp add: init_def)

lemma isResponseResult_asResponse:
  "isResponseResult result \<Longrightarrow> \<exists>r. result = ResultResponse r \<and> asResponse result = Some r"
  by (cases result) simp_all

lemmas lifecycle_defs =
  run_def throughOrigin_def respondMiss_def saveIfCacheable_def onOriginRequest_def
  onOriginResponse_def onOrigin_def onCache_def canCache_def onViewerRequest_def
  onViewerResponse_def

lemmas example_defs =
  example_lifecycle_def example_fnSet_def example_state_def example_event_def
  example_response_def new_FunctionSet_def new_Origin_def mergeBehavior_def
  defaultBehavior_def example_platform_def identityRequestHandler_def
  identityResponseHandler_def respondWith_def failWith_def CacheService_def
  combineResult_def init_def withEventType_def

lemmas example_hook_defs =
  withViewerResponse_def rejectRedirect_def replaceResponse_def movedPermanently_def

section \<open>Lifecycle: the method check\<close>

text \<open>
  C7. When the request's method is not among the function set's \<open>allowedMethods\<close>,
  \<open>run\<close> fails with the \<open>MethodNotAllowedError\<close>, whose status is 405, having called no
  hook, no cache operation and no origin fetch, and with the store as it was.
\<close>

theorem run_method_not_allowed:
  assumes "http_method (request (event st)) \<notin> set (allowedMethods (behavior (fnSet lc)))"
  shows "fst (run env toRR lc st) = Inl (MethodNotAllowedError ''Cloudfront method not allowed'') \<and>
         MethodNotAllowedError ''Cloudfront method not allowed'' =
           HttpError 405 ''Cloudfront method not allowed'' \<and>
         calls (snd (run env toRR lc st)) = calls st \<and>
         store (snd (run env toRR lc st)) = store st"
  using assms by (simp add: run_def Let_def MethodNotAllowedError_def)

theorem run_method_not_allowed_witness:
  "''POST'' \<notin> set (allowedMethods (behavior (fnSet
      (example_lifecycle identityRequestHandler identityRequestHandler)))) \<and>
   fst (run example_platform (example_response None)
      (example_lifecycle identityRequestHandler identityRequestHandler)
      (example_state ''POST'' ''/index.html'' Map.empty)) =
     Inl (HttpError 405 ''Cloudfront method not allowed'') \<and>
   calls (snd (run example_platform (example_response None)
      (example_lifecycle identityRequestHandler identityRequestHandler)
      (example_state ''POST'' ''/index.html'' Map.empty))) = []"
proof -
  let ?lc = "example_lifecycle identityRequestHandler identityRequestHandler"
  let ?st = "example_state ''POST'' ''/index.html'' Map.empty"
  have m: "http_method (request (event ?st)) = ''POST''"
    by (simp add: example_state_def example_event_def)
  have a: "allowedMethods (behavior (fnSet ?lc)) = [''GET'', ''HEAD'']"
    by (simp add: example_lifecycle_def example_fnSet_def new_FunctionSet_def
        mergeBehavior_def defaultBehavior_def)
  have h: "http_method (request (event ?st)) \<notin> set (allowedMethods (behavior (fnSet ?lc)))"
    by (simp add: m a)
  have c: "calls ?st = []" by (simp add: example_state_def)
  show ?thesis
    using run_method_not_allowed [OF h, of example_platform "example_response None"]
    by (simp add: a c)
qed

section \<open>Lifecycle: the short circuit at the viewer request\<close>

lemma onViewerResponse_eq:
  "onViewerResponse lc result st =
     (viewerResponse (fnSet lc) (combineResult (withEventType ''viewer-response'' (event st)) result),
      called CallViewerResponse
        (viewerResponse (fnSet lc) (combineResult (withEventType ''viewer-response'' (event st)) result))
        (setEventType ''viewer-response'' st))"
  by (simp add: onViewerResponse_def Let_def)

lemma withEventType_again [simp]: "withEventType t (withEventType t' ev) = withEventType t ev"
  by (simp add: withEventType_def)

text \<open>
  C1, as the code has it. For a request whose method is allowed: when the
  viewer-request hook returns a result that \<open>isResponseResult\<close> classifies as a
  response, and the viewer-response hook does not reject that response with a
  \<open>NoResult\<close>, the result of \<open>run\<close> is the outcome of the viewer-response hook on that
  response, the only calls made are those two hooks (so neither the cache, nor the
  origin-request hook, nor the origin), and the store is as it was. A \<open>NoResult\<close> from
  the viewer-response hook is caught by the \<open>try\<close> block around \<open>onViewerRequest\<close>, and
  \<open>run\<close> goes on to the cache and the origin, as the run after the witness shows.
\<close>

theorem run_viewer_request_short_circuit:
  assumes "http_method (request (event st)) \<in> set (allowedMethods (behavior (fnSet lc)))"
    and "viewerRequest (fnSet lc)
           (withEventType ''viewer-request'' (init (origin (fnSet lc)) (event st))) = Inr result"
    and "isResponseResult result"
    and "viewerResponse (fnSet lc)
           (combineResult (withEventType ''viewer-response'' (init (origin (fnSet lc)) (event st)))
              (asResponse result)) \<noteq> Inl NoResult"
  shows "asResponse result \<noteq> None \<and>
         fst (run env toRR lc st) =
           viewerResponse (fnSet lc)
             (combineResult (withEventType ''viewer-response'' (init (origin (fnSet lc)) (event st)))
                (asResponse result)) \<and>
         calls (snd (run env toRR lc st)) =
           calls st @ [(CallViewerRequest, None),
                       (CallViewerResponse, threw (fst (run env toRR lc st)))] \<and>
         store (snd (run env toRR lc st)) = store st"
proof -
  let ?sa = "st\<lparr>event := init (origin (fnSet lc)) (event st)\<rparr>"
  let ?out = "viewerResponse (fnSet lc)
     (combineResult (withEventType ''viewer-response'' (init (origin (fnSet lc)) (event st)))
        (asResponse result))"
  have vr: "onViewerRequest lc ?sa =
      (?out, called CallViewerResponse ?out (setEventType ''viewer-response''
          (called CallViewerRequest (Inr result :: error + request_result)
             (setEventType ''viewer-request'' ?sa))))"
    using assms(2,3) by (simp add: onViewerRequest_def onViewerResponse_eq Let_def)
  have r: "run env toRR lc st = onViewerRequest lc ?sa"
    using assms(1,4) unfolding run_def Let_def vr by (cases ?out) auto
  have "asResponse result \<noteq> None"
    using isResponseResult_asResponse [OF assms(3)] by auto
  then show ?thesis by (simp add: r vr)
qed

theorem run_viewer_request_short_circuit_witness:
  "fst (run example_platform (example_response None)
      (example_lifecycle (respondWith movedPermanently) identityRequestHandler)
      (example_state ''GET'' ''/index.html'' Map.empty)) = Inr (Some movedPermanently) \<and>
   calls (snd (run example_platform (example_response None)
      (example_lifecycle (respondWith movedPermanently) identityRequestHandler)
      (example_state ''GET'' ''/index.html'' Map.empty))) =
     [(CallViewerRequest, None), (CallViewerResponse, None)] \<and>
   store (snd (run example_platform (example_response None)
      (example_lifecycle (respondWith movedPermanently) identityRequestHandler)
      (example_state ''GET'' ''/index.html'' Map.empty))) = Map.empty"
proof -
  let ?lc = "example_lifecycle (respondWith movedPermanently) identityRequestHandler"
  let ?st = "example_state ''GET'' ''/index.html'' Map.empty"
  have h1: "http_method (request (event ?st)) \<in> set (allowedMethods (behavior (fnSet ?lc)))"
    by (simp add: example_defs)
  have h2: "viewerRequest (fnSet ?lc)
      (withEventType ''viewer-request'' (init (origin (fnSet ?lc)) (event ?st))) =
      Inr (ResultResponse movedPermanently)"
    by (simp add: example_lifecycle_def example_fnSet_def respondWith_def)
  have h3: "isResponseResult (ResultResponse movedPermanently)" by simp
  have out: "viewerResponse (fnSet ?lc)
      (combineResult (withEventType ''viewer-response'' (init (origin (fnSet ?lc)) (event ?st)))
         (Some movedPermanently)) = Inr (Some movedPermanently)"
    by (simp add: example_lifecycle_def example_fnSet_def new_FunctionSet_def
        identityResponseHandler_def combineResult_def)
  have h4: "viewerResponse (fnSet ?lc)
      (combineResult (withEventType ''viewer-response'' (init (origin (fnSet ?lc)) (event ?st)))
         (asResponse (ResultResponse movedPermanently))) \<noteq> Inl NoResult"
    by (simp add: out)
  have c: "calls ?st = []" "store ?st = Map.empty" by (simp_all add: example_state_def)
  show ?thesis
    using run_viewer_request_short_circuit [OF h1 h2 h3 h4, of example_platform "example_response None"]
    by (simp add: out c)
qed

theorem run_viewer_request_short_circuit_counterexample:
  "viewerRequest (fnSet (withViewerResponse rejectRedirect
      (example_lifecycle (respondWith movedPermanently) identityRequestHandler)))
     (withEventType ''viewer-request''
        (init (origin (fnSet (withViewerResponse rejectRedirect
            (example_lifecycle (respondWith movedPermanently) identityRequestHandler))))
          (event (example_state ''GET'' ''/index.html'' Map.empty)))) =
     Inr (ResultResponse movedPermanently) \<and>
   viewerResponse (fnSet (withViewerResponse rejectRedirect
      (example_lifecycle (respondWith movedPermanently) identityRequestHandler)))
     (combineResult (withEventType ''viewer-response''
        (init (origin (fnSet (withViewerResponse rejectRedirect
            (example_lifecycle (respondWith movedPermanently) identityRequestHandler))))
          (event (example_state ''GET'' ''/index.html'' Map.empty))))
        (Some movedPermanently)) = Inl NoResult \<and>
   map_option body (projr (fst (run example_platform (example_response None)
      (withViewerResponse rejectRedirect
         (example_lifecycle (respondWith movedPermanently) identityRequestHandler))
      (example_state ''GET'' ''/index.html'' Map.empty)))) = Some (Some ''<html></html>'') \<and>
   calls (snd (run example_platform (example_response None)
      (withViewerResponse rejectRedirect
         (example_lifecycle (respondWith movedPermanently) identityRequestHandler))
      (example_state ''GET'' ''/index.html'' Map.empty))) =
     [(CallViewerRequest, None), (CallViewerResponse, Some NoResult), (CallCacheRetrieve, None),
      (CallOriginRequest, None), (CallOriginRetrieve, None), (CallOriginResponse, None),
      (CallCacheSave, None), (CallViewerResponse, None)] \<and>
   store (snd (run example_platform (example_response None)
      (withViewerResponse rejectRedirect
         (example_lifecycle (respondWith movedPermanently) identityRequestHandler))
      (example_state ''GET'' ''/index.html'' Map.empty))) ''/index.html'' =
     Some \<lparr>expire = 86400000, entry_body = Some ''<html></html>''\<rparr>"
  by (simp add: lifecycle_defs example_defs example_hook_defs Let_def retrieveFromCache_def
      retrieve_def getResource_def getFileResource_def fileTarget_def saveToCache_def
      setHeader_def headerTTL_def boundTTL_def cacheControlStr_def jsonContentType_def)

section \<open>Lifecycle: errors\<close>












section \<open>Lifecycle: past the two guarded stages\<close>

lemma run_reaches_origin:
  assumes "http_method (request (event st)) \<in> set (allowedMethods (behavior (fnSet lc)))"
    and "onViewerRequest lc (st\<lparr>event := init (origin (fnSet lc)) (event st)\<rparr>) = (Inl NoResult, st1)"
    and "onCache toRR lc st1 = (Inl NoResult, st2)"
  shows "run env toRR lc st = throughOrigin env lc st2"
  using assms by (simp add: run_def Let_def)

lemma run_cache_hit:
  assumes "http_method (request (event st)) \<in> set (allowedMethods (behavior (fnSet lc)))"
    and "onViewerRequest lc (st\<lparr>event := init (origin (fnSet lc)) (event st)\<rparr>) = (Inl NoResult, st1)"
    and "fst (onCache toRR lc st1) \<noteq> Inl NoResult"
  shows "run env toRR lc st = onCache toRR lc st1"
  using assms
  by (cases "onCache toRR lc st1"; cases "fst (onCache toRR lc st1)") (auto simp: run_def Let_def)

lemma onCache_hit:
  assumes "canCache lc st"
    and "retrieve_from_cache (fileService lc) (event st) (store st) = (Inr (Some cached), c')"
    and "cached \<noteq> []"
  shows "fst (onCache toRR lc st) =
           viewerResponse (fnSet lc)
             (combineResult (withEventType ''viewer-response'' (event st))
                (Some (setHeader ''X-Cache'' (xCache ''Hit'') (toRR cached))))"
  using assms by (simp add: onCache_def onViewerResponse_eq Let_def)

lemma setHeader_headers:
  "\<exists>hs. headers (setHeader n h r) = Some hs \<and> hs n = Some h"
  by (simp add: setHeader_def)

lemma respondMiss_marker:
  "fst (respondMiss lc result st) = Inr (Some r) \<Longrightarrow>
   \<exists>hs. headers r = Some hs \<and> hs ''x-cache'' = Some (xCache ''Miss'')"
  by (auto simp: respondMiss_def setHeader_def onViewerResponse_eq split: sum.splits option.splits)

lemma throughOrigin_marker:
  assumes "fst (throughOrigin env lc st) = Inr (Some r)"
  shows "\<exists>hs. headers r = Some hs \<and> hs ''x-cache'' = Some (xCache ''Miss'')"
proof -
  obtain r1 st1 where o1: "onOriginRequest env lc st = (r1, st1)"
    by (cases "onOriginRequest env lc st")
  show ?thesis
  proof (cases r1)
    case (Inl e)
    with o1 assms show ?thesis by (simp add: throughOrigin_def)
  next
    case (Inr result)
    obtain r2 st2 where o2: "saveIfCacheable lc result st1 = (r2, st2)"
      by (cases "saveIfCacheable lc result st1")
    show ?thesis
    proof (cases r2)
      case (Inl e)
      with o1 o2 assms \<open>r1 = Inr result\<close> show ?thesis by (simp add: throughOrigin_def)
    next
      case (Inr u)
      with o1 o2 \<open>r1 = Inr result\<close>
      have "throughOrigin env lc st = respondMiss lc result st2"
        by (simp add: throughOrigin_def)
      with assms show ?thesis using respondMiss_marker [of lc result st2 r] by simp
    qed
  qed
qed

text \<open>
  Where the two markers are set. For a request with an allowed method that the
  viewer-request stage did not answer: on a cache hit the response handed to the
  viewer-response stage carries \<open>X-Cache: Hit\<close>, and \<open>run\<close> returns that stage's
  outcome on it (the response itself when the hook is the identity handler, and unless
  the hook throws \<open>NoResult\<close>); and when the cache stage does not answer either, every
  response that \<open>run\<close> returns carries \<open>X-Cache: Miss\<close>, under the property name
  \<open>x-cache\<close>, set after the viewer-response stage.
\<close>

theorem run_x_cache_marker:
  assumes "http_method (request (event st)) \<in> set (allowedMethods (behavior (fnSet lc)))"
    and "onViewerRequest lc (st\<lparr>event := init (origin (fnSet lc)) (event st)\<rparr>) = (Inl NoResult, st1)"
  shows
    "(\<forall>cached c'.
        canCache lc st1 \<and>
        retrieve_from_cache (fileService lc) (event st1) (store st1) = (Inr (Some cached), c') \<and>
        cached \<noteq> [] \<longrightarrow>
        (\<exists>hs. headers (setHeader ''X-Cache'' (xCache ''Hit'') (toRR cached)) = Some hs \<and>
              hs ''X-Cache'' = Some (HeaderList [\<lparr>key = Some ''X-Cache'', header_value = ''Hit''\<rparr>])) \<and>
        (viewerResponse (fnSet lc)
           (combineResult (withEventType ''viewer-response'' (event st1))
              (Some (setHeader ''X-Cache'' (xCache ''Hit'') (toRR cached)))) \<noteq> Inl NoResult \<longrightarrow>
         fst (run env toRR lc st) =
           viewerResponse (fnSet lc)
             (combineResult (withEventType ''viewer-response'' (event st1))
                (Some (setHeader ''X-Cache'' (xCache ''Hit'') (toRR cached))))) \<and>
        (viewerResponse (fnSet lc) = identityResponseHandler \<longrightarrow>
         fst (run env toRR lc st) =
           Inr (Some (setHeader ''X-Cache'' (xCache ''Hit'') (toRR cached))))) \<and>
     (\<forall>st2 r.
        onCache toRR lc st1 = (Inl NoResult, st2) \<and> fst (run env toRR lc st) = Inr (Some r) \<longrightarrow>
        (\<exists>hs. headers r = Some hs \<and>
              hs ''x-cache'' = Some (HeaderList [\<lparr>key = Some ''X-Cache'', header_value = ''Miss''\<rparr>])))"
proof (intro conjI allI impI)
  fix cached c'
  show "\<exists>hs. headers (setHeader ''X-Cache'' (xCache ''Hit'') (toRR cached)) = Some hs \<and>
      hs ''X-Cache'' = Some (HeaderList [\<lparr>key = Some ''X-Cache'', header_value = ''Hit''\<rparr>])"
    using setHeader_headers [of "''X-Cache''" "xCache ''Hit''" "toRR cached"]
    by (simp add: xCache_def)
next
  fix cached c'
  let ?out = "viewerResponse (fnSet lc)
     (combineResult (withEventType ''viewer-response'' (event st1))
        (Some (setHeader ''X-Cache'' (xCache ''Hit'') (toRR cached))))"
  assume hit: "canCache lc st1 \<and>
      retrieve_from_cache (fileService lc) (event st1) (store st1) = (Inr (Some cached), c') \<and>
      cached \<noteq> []"
    and nosig: "?out \<noteq> Inl NoResult"
  have "fst (onCache toRR lc st1) = ?out"
    using hit onCache_hit [of lc st1 cached c' toRR] by simp
  then show "fst (run env toRR lc st) = ?out"
    using run_cache_hit [OF assms, of toRR env] nosig by simp
next
  fix cached c'
  let ?hit = "setHeader ''X-Cache'' (xCache ''Hit'') (toRR cached)"
  assume hit: "canCache lc st1 \<and>
      retrieve_from_cache (fileService lc) (event st1) (store st1) = (Inr (Some cached), c') \<and>
      cached \<noteq> []"
    and ident: "viewerResponse (fnSet lc) = identityResponseHandler"
  have "fst (onCache toRR lc st1) = Inr (Some ?hit)"
    using hit onCache_hit [of lc st1 cached c' toRR] ident
    by (simp add: identityResponseHandler_def combineResult_def)
  then show "fst (run env toRR lc st) = Inr (Some ?hit)"
    using run_cache_hit [OF assms, of toRR env] by simp
next
  fix st2 r
  assume "onCache toRR lc st1 = (Inl NoResult, st2) \<and> fst (run env toRR lc st) = Inr (Some r)"
  then have "fst (throughOrigin env lc st2) = Inr (Some r)"
    using run_reaches_origin [OF assms, of toRR st2 env] by simp
  then show "\<exists>hs. headers r = Some hs \<and>
      hs ''x-cache'' = Some (HeaderList [\<lparr>key = Some ''X-Cache'', header_value = ''Miss''\<rparr>])"
    using throughOrigin_marker [of env lc st2 r] by (simp add: xCache_def)
qed

theorem run_x_cache_marker_witness:
  "fst (run example_platform (example_response None)
      (example_lifecycle identityRequestHandler identityRequestHandler)
      (example_state ''GET'' ''/index.html''
         [''/index.html'' \<mapsto> \<lparr>expire = 1000, entry_body = Some ''cached page''\<rparr>])) =
     Inr (Some (example_response
        (Some [''X-Cache'' \<mapsto> HeaderList [\<lparr>key = Some ''X-Cache'', header_value = ''Hit''\<rparr>]])
        ''cached page'')) \<and>
   (\<exists>r hs. fst (run example_platform (example_response None)
        (example_lifecycle identityRequestHandler identityRequestHandler)
        (example_state ''GET'' ''/index.html'' Map.empty)) = Inr (Some r) \<and>
      body r = Some ''<html></html>'' \<and> headers r = Some hs \<and>
      hs ''x-cache'' = Some (HeaderList [\<lparr>key = Some ''X-Cache'', header_value = ''Miss''\<rparr>]))"
proof -
  let ?lc = "example_lifecycle identityRequestHandler identityRequestHandler"
  let ?c = "[''/index.html'' \<mapsto> \<lparr>expire = 1000, entry_body = Some ''cached page''\<rparr>]"
  let ?sth = "example_state ''GET'' ''/index.html'' ?c"
  let ?stm = "example_state ''GET'' ''/index.html'' Map.empty"
  let ?toRR = "example_response None"
  have allowed: "\<And>c. http_method (request (event (example_state ''GET'' ''/index.html'' c)))
      \<in> set (allowedMethods (behavior (fnSet ?lc)))"
    by (simp add: example_defs)
  have ident: "viewerResponse (fnSet ?lc) = identityResponseHandler"
    by (simp add: example_lifecycle_def example_fnSet_def new_FunctionSet_def)
  have vr: "\<And>c. fst (onViewerRequest ?lc ((example_state ''GET'' ''/index.html'' c)
      \<lparr>event := init (origin (fnSet ?lc)) (event (example_state ''GET'' ''/index.html'' c))\<rparr>)) =
      Inl NoResult"
    by (simp add: onViewerRequest_def Let_def example_lifecycle_def example_fnSet_def
        new_FunctionSet_def identityRequestHandler_def)
  let ?st1h = "snd (onViewerRequest ?lc (?sth\<lparr>event := init (origin (fnSet ?lc)) (event ?sth)\<rparr>))"
  let ?st1m = "snd (onViewerRequest ?lc (?stm\<lparr>event := init (origin (fnSet ?lc)) (event ?stm)\<rparr>))"
  have vrh: "onViewerRequest ?lc (?sth\<lparr>event := init (origin (fnSet ?lc)) (event ?sth)\<rparr>) =
      (Inl NoResult, ?st1h)"
    using vr [of ?c] by (simp add: prod_eq_iff)
  have vrm: "onViewerRequest ?lc (?stm\<lparr>event := init (origin (fnSet ?lc)) (event ?stm)\<rparr>) =
      (Inl NoResult, ?st1m)"
    using vr [of Map.empty] by (simp add: prod_eq_iff)
  have hit: "canCache ?lc ?st1h \<and>
      retrieve_from_cache (fileService ?lc) (event ?st1h) (store ?st1h) = (Inr (Some ''cached page''), ?c) \<and>
      ''cached page'' \<noteq> []"
    by (simp add: canCache_def onViewerRequest_def Let_def example_defs retrieveFromCache_def)
  have h: "fst (run example_platform ?toRR ?lc ?sth) =
      Inr (Some (setHeader ''X-Cache'' (xCache ''Hit'') (?toRR ''cached page'')))"
    using run_x_cache_marker [OF allowed vrh, of ?toRR example_platform] hit ident by blast
  have onc: "fst (onCache ?toRR ?lc ?st1m) = Inl NoResult"
    by (simp add: onCache_def canCache_def onViewerRequest_def Let_def example_defs
        retrieveFromCache_def)
  have oncm: "onCache ?toRR ?lc ?st1m = (Inl NoResult, snd (onCache ?toRR ?lc ?st1m))"
    using onc by (simp add: prod_eq_iff)
  obtain r where r: "fst (run example_platform ?toRR ?lc ?stm) = Inr (Some r)"
    "body r = Some ''<html></html>''"
    by (simp add: lifecycle_defs example_defs Let_def retrieveFromCache_def retrieve_def
        getResource_def getFileResource_def fileTarget_def saveToCache_def setHeader_def)
  obtain hs where "headers r = Some hs"
    "hs ''x-cache'' = Some (HeaderList [\<lparr>key = Some ''X-Cache'', header_value = ''Miss''\<rparr>])"
    using run_x_cache_marker [OF allowed vrm, of ?toRR example_platform] oncm r(1) by blast
  with r h show ?thesis
    by (auto simp: setHeader_def xCache_def example_response_def)
qed

text \<open>
  C6, at a viewer-response hook that answers with a response of its own: on a cache
  hit the response that \<open>run\<close> returns has no headers, hence no \<open>X-Cache: Hit\<close>,
  the marker having been set on the response the hook was given; for the same hook
  and request with an empty cache, the response that \<open>run\<close> returns carries
  \<open>X-Cache: Miss\<close>, set after the hook.
\<close>

theorem run_cache_hit_marker_dropped:
  "fst (run example_platform (example_response None)
      (withViewerResponse (replaceResponse (example_response None ''rewritten''))
         (example_lifecycle identityRequestHandler identityRequestHandler))
      (example_state ''GET'' ''/index.html''
         [''/index.html'' \<mapsto> \<lparr>expire = 1000, entry_body = Some ''cached page''\<rparr>])) =
     Inr (Some (example_response None ''rewritten'')) \<and>
   headers (example_response None ''rewritten'') = None \<and>
   calls (snd (run example_platform (example_response None)
      (withViewerResponse (replaceResponse (example_response None ''rewritten''))
         (example_lifecycle identityRequestHandler identityRequestHandler))
      (example_state ''GET'' ''/index.html''
         [''/index.html'' \<mapsto> \<lparr>expire = 1000, entry_body = Some ''cached page''\<rparr>]))) =
     [(CallViewerRequest, None), (CallCacheRetrieve, None), (CallViewerResponse, None)] \<and>
   fst (run example_platform (example_response None)
      (withViewerResponse (replaceResponse (example_response None ''rewritten''))
         (example_lifecycle identityRequestHandler identityRequestHandler))
      (example_state ''GET'' ''/index.html'' Map.empty)) =
     Inr (Some (example_response
        (Some [''x-cache'' \<mapsto> HeaderList [\<lparr>key = Some ''X-Cache'', header_value = ''Miss''\<rparr>]])
        ''rewritten''))"
  by (simp add: lifecycle_defs example_defs example_hook_defs Let_def retrieveFromCache_def
      retrieve_def getResource_def getFileResource_def fileTarget_def saveToCache_def
      setHeader_def xCache_def headerTTL_def boundTTL_def cacheControlStr_def jsonContentType_def)

section \<open>Lifecycle: the short circuit at the origin request\<close>

lemma request_onViewerResponse [simp]:
  "request (event (snd (onViewerResponse lc result st))) = request (event st)"
  by (simp add: onViewerResponse_eq)

lemma request_onViewerRequest:
  "request (event (snd (onViewerRequest lc st))) = request (event st)"
  by (simp add: onViewerRequest_def Let_def split: sum.splits)

lemma request_onCache:
  "request (event (snd (onCache toRR lc st))) = request (event st)"
  by (simp add: onCache_def Let_def split: prod.splits sum.splits option.splits)

lemma respondMiss_state:
  "store (snd (respondMiss lc result st)) = store st \<and>
   calls (snd (respondMiss lc result st)) =
     calls st @ [(CallViewerResponse,
        threw (viewerResponse (fnSet lc)
           (combineResult (withEventType ''viewer-response'' (event st)) result)))]"
  by (simp add: respondMiss_def onViewerResponse_eq split: sum.splits option.splits)

text \<open>
  C10. For a request that reaches the origin-request stage (allowed method, no answer
  from the viewer-request stage nor from the cache stage), with caching enabled and a
  method among \<open>cachedMethods\<close>: when the origin-request hook returns a result of
  response shape, \<open>run\<close> leaves the store with that response's body under the request's
  URI, expiring after the TTL that the policy's bounds make of the response's headers,
  and the calls made from that stage on are the origin-request hook, the cache's save
  and the viewer-response hook: the origin is not fetched and the origin-response hook
  is not called.
\<close>

theorem run_origin_request_short_circuit_cached:
  assumes allowed: "http_method (request (event st)) \<in> set (allowedMethods (behavior (fnSet lc)))"
    and vr: "onViewerRequest lc (st\<lparr>event := init (origin (fnSet lc)) (event st)\<rparr>) = (Inl NoResult, st1)"
    and oc: "onCache toRR lc st1 = (Inl NoResult, st2)"
    and svc: "fileService lc = CacheService parseCC now"
    and enabled: "\<not> disableCache lc"
    and cached: "http_method (request (event st)) \<in> set (cachedMethods (behavior (fnSet lc)))"
    and hook: "originRequest (fnSet lc) (withEventType ''origin-request'' (event st2)) = Inr result"
    and resp: "isResponseResult result"
  shows "\<exists>r. asResponse result = Some r \<and>
           store (snd (run env toRR lc st)) =
             (store st2)(uri (request (event st)) \<mapsto>
                \<lparr>expire = now + 1000 * boundTTL (behavior (fnSet lc))
                            (headerTTL parseCC (behavior (fnSet lc)) (headers r)),
                 entry_body = body r\<rparr>) \<and>
           calls (snd (run env toRR lc st)) =
             calls st2 @ [(CallOriginRequest, None), (CallCacheSave, None),
                (CallViewerResponse,
                   threw (viewerResponse (fnSet lc)
                      (combineResult (withEventType ''viewer-response'' (event st2)) (Some r))))]"
proof -
  obtain r where r: "result = ResultResponse r" "asResponse result = Some r"
    using isResponseResult_asResponse [OF resp] by blast
  have req1: "request (event st1) = request (init (origin (fnSet lc)) (event st))"
    using request_onViewerRequest [of lc "st\<lparr>event := init (origin (fnSet lc)) (event st)\<rparr>"] vr
    by simp
  have req2: "request (event st2) = request (init (origin (fnSet lc)) (event st))"
    using request_onCache [of toRR lc st1] oc req1 by simp
  let ?sc = "called CallOriginRequest (Inr result :: error + request_result)
                (setEventType ''origin-request'' st2)"
  have o: "onOriginRequest env lc st2 = (Inr (Some r), ?sc)"
    using hook r by (simp add: onOriginRequest_def Let_def)
  have can: "canCache lc ?sc"
    using enabled cached req2 by (simp add: canCache_def)
  let ?entry = "\<lparr>expire = now + 1000 * boundTTL (behavior (fnSet lc))
                   (headerTTL parseCC (behavior (fnSet lc)) (headers r)),
                 entry_body = body r\<rparr>"
  let ?sd = "called CallCacheSave (Inr () :: error + unit)
                (?sc\<lparr>store := (store st2)(uri (request (event st)) \<mapsto> ?entry)\<rparr>)"
  have s: "saveIfCacheable lc (Some r) ?sc = (Inr (), ?sd)"
    using can req2
    by (simp add: saveIfCacheable_def svc CacheService_def saveToCache_def combineResult_def)
  have "run env toRR lc st = respondMiss lc (Some r) ?sd"
    using run_reaches_origin [OF allowed vr oc, of env] o s by (simp add: throughOrigin_def)
  then show ?thesis
    using r(2) respondMiss_state [of lc "Some r" ?sd] by simp
qed

theorem run_origin_request_short_circuit_cached_witness:
  "store (snd (run example_platform (example_response None)
      (example_lifecycle identityRequestHandler
         (respondWith (example_response (cacheControl ''max-age=120'') ''generated'')))
      (example_state ''GET'' ''/index.html'' Map.empty))) =
     [''/index.html'' \<mapsto> \<lparr>expire = 120000, entry_body = Some ''generated''\<rparr>] \<and>
   calls (snd (run example_platform (example_response None)
      (example_lifecycle identityRequestHandler
         (respondWith (example_response (cacheControl ''max-age=120'') ''generated'')))
      (example_state ''GET'' ''/index.html'' Map.empty))) =
     [(CallViewerRequest, None), (CallCacheRetrieve, None), (CallOriginRequest, None),
      (CallCacheSave, None), (CallViewerResponse, None)]"
proof -
  let ?resp = "example_response (cacheControl ''max-age=120'') ''generated''"
  let ?lc = "example_lifecycle identityRequestHandler (respondWith ?resp)"
  let ?st = "example_state ''GET'' ''/index.html'' Map.empty"
  let ?toRR = "example_response None"
  let ?sa = "?st\<lparr>event := init (origin (fnSet ?lc)) (event ?st)\<rparr>"
  let ?sb = "snd (onViewerRequest ?lc ?sa)"
  let ?sc = "snd (onCache ?toRR ?lc ?sb)"
  have allowed: "http_method (request (event ?st)) \<in> set (allowedMethods (behavior (fnSet ?lc)))"
    by (simp add: example_defs)
  have vr: "onViewerRequest ?lc ?sa = (Inl NoResult, ?sb)"
    by (simp add: prod_eq_iff onViewerRequest_def Let_def example_lifecycle_def example_fnSet_def
        new_FunctionSet_def identityRequestHandler_def)
  have oc: "onCache ?toRR ?lc ?sb = (Inl NoResult, ?sc)"
    by (simp add: prod_eq_iff onCache_def canCache_def onViewerRequest_def Let_def example_defs
        retrieveFromCache_def)
  have svc: "fileService ?lc = CacheService maxAgeTable 0"
    by (simp add: example_lifecycle_def)
  have enabled: "\<not> disableCache ?lc" by (simp add: example_lifecycle_def)
  have cached: "http_method (request (event ?st)) \<in> set (cachedMethods (behavior (fnSet ?lc)))"
    by (simp add: example_defs)
  have hook: "originRequest (fnSet ?lc) (withEventType ''origin-request'' (event ?sc)) =
      Inr (ResultResponse ?resp)"
    by (simp add: example_lifecycle_def example_fnSet_def respondWith_def)
  have resp: "isResponseResult (ResultResponse ?resp)" by simp
  have sc: "store ?sc = Map.empty"
    "calls ?sc = [(CallViewerRequest, None), (CallCacheRetrieve, None)]"
    by (simp_all add: onCache_def canCache_def onViewerRequest_def Let_def example_defs
        retrieveFromCache_def)
  have ttl: "boundTTL (behavior (fnSet ?lc)) (headerTTL maxAgeTable (behavior (fnSet ?lc)) (headers ?resp)) = 120"
    by (simp add: example_defs headerTTL_def boundTTL_def maxAgeTable_def cacheControl_def
        cacheControlStr_def)
  have u: "uri (request (event ?st)) = ''/index.html''" by (simp add: example_defs)
  have out: "threw (viewerResponse (fnSet ?lc)
      (combineResult (withEventType ''viewer-response'' (event ?sc)) (Some ?resp))) = None"
    by (simp add: example_lifecycle_def example_fnSet_def new_FunctionSet_def
        identityResponseHandler_def)
  have b: "body ?resp = Some ''generated''" by (simp add: example_response_def)
  show ?thesis
    using run_origin_request_short_circuit_cached
      [OF allowed vr oc svc enabled cached hook resp, of example_platform]
    by (simp add: sc ttl u out b)
qed

section \<open>Router\<close>

lemma match_pathname:
  "u \<noteq> [] \<Longrightarrow> URL_pathname u = Some p \<Longrightarrow>
   match URL_pathname bs (Some u) =
     (case find (\<lambda>(k, handler). regex handler p) bs of
        Some (k, handler) \<Rightarrow> Inr (Some handler)
      | None \<Rightarrow> Inr (map_of bs ''*''))"
  by (simp add: match_def)

lemma globMatch_images [simp]:
  "globMatch ''/images/*'' ''/images/foo.png''"
  "globMatch ''*'' s"
  "\<not> globMatch ''/images/*'' ''/index.html''"
proof -
  have star: "\<And>t. globMatch ''*'' t"
  proof -
    fix t show "globMatch ''*'' t" by (induction t) simp_all
  qed
  show "globMatch ''*'' s" by (rule star)
  show "globMatch ''/images/*'' ''/images/foo.png''" using star [of "''foo.png''"] by simp
  show "\<not> globMatch ''/images/*'' ''/index.html''" by simp
qed

text \<open>
  C8. For a request with a non-empty URL whose path the platform parses: \<open>match\<close>
  returns the first function set, in the order of the \<open>behaviors\<close> map, whose pattern
  matches the path; when none matches, it returns the function set stored under
  \<open>*\<close> when there is one, and nothing otherwise. In particular, with the patterns
  \<open>/images/*\<close> and \<open>*\<close> configured in that order, a request for
  \<open>/images/foo.png\<close> selects the function set of \<open>/images/*\<close>.
\<close>

theorem match_first_pattern:
  assumes "u \<noteq> []" and "URL_pathname u = Some p"
  shows
    "(\<forall>i. i < length bs \<and> regex (snd (bs ! i)) p \<and> (\<forall>j<i. \<not> regex (snd (bs ! j)) p) \<longrightarrow>
         match URL_pathname bs (Some u) = Inr (Some (snd (bs ! i)))) \<and>
     ((\<forall>kh\<in>set bs. \<not> regex (snd kh) p) \<longrightarrow>
         match URL_pathname bs (Some u) = Inr (map_of bs ''*'')) \<and>
     match (\<lambda>url. Some url)
        [(''/images/*'', new_FunctionSet globMatch ''/images/*'' orig1 name1 cfg1),
         (''*'', new_FunctionSet globMatch ''*'' orig2 name2 cfg2)]
        (Some ''/images/foo.png'') =
       Inr (Some (new_FunctionSet globMatch ''/images/*'' orig1 name1 cfg1))"
proof (intro conjI allI impI)
  fix i
  assume a: "i < length bs \<and> regex (snd (bs ! i)) p \<and> (\<forall>j<i. \<not> regex (snd (bs ! j)) p)"
  then have "find (\<lambda>(k, handler). regex handler p) bs = Some (bs ! i)"
    unfolding find_Some_iff by (auto simp: case_prod_unfold)
  then show "match URL_pathname bs (Some u) = Inr (Some (snd (bs ! i)))"
    using assms by (simp add: match_pathname case_prod_unfold)
next
  assume "\<forall>kh\<in>set bs. \<not> regex (snd kh) p"
  then have "find (\<lambda>(k, handler). regex handler p) bs = None"
    unfolding find_None_iff by (auto simp: case_prod_unfold)
  then show "match URL_pathname bs (Some u) = Inr (map_of bs ''*'')"
    using assms by (simp add: match_pathname)
next
  show "match (\<lambda>url. Some url)
        [(''/images/*'', new_FunctionSet globMatch ''/images/*'' orig1 name1 cfg1),
         (''*'', new_FunctionSet globMatch ''*'' orig2 name2 cfg2)]
        (Some ''/images/foo.png'') =
       Inr (Some (new_FunctionSet globMatch ''/images/*'' orig1 name1 cfg1))"
    by (simp add: match_def new_FunctionSet_def)
qed

theorem match_first_pattern_witness:
  "map_option pattern (projr (match (\<lambda>url. Some url) example_behaviors (Some ''/images/foo.png''))) =
     Some ''/images/*'' \<and>
   map_option pattern (projr (match (\<lambda>url. Some url) example_behaviors (Some ''/index.html''))) =
     Some ''*'' \<and>
   match (\<lambda>url. Some url) (butlast example_behaviors) (Some ''/index.html'') = Inr None"
proof -
  let ?p = "\<lambda>url :: string. Some url"
  have l: "length example_behaviors = 2" by (simp add: example_behaviors_def)
  have r0: "regex (snd (example_behaviors ! 0)) = globMatch ''/images/*''"
    and r1: "regex (snd (example_behaviors ! Suc 0)) = globMatch ''*''"
    by (simp_all add: example_behaviors_def new_FunctionSet_def)
  have p0: "pattern (snd (example_behaviors ! 0)) = ''/images/*''"
    and p1: "pattern (snd (example_behaviors ! Suc 0)) = ''*''"
    by (simp_all add: example_behaviors_def new_FunctionSet_def)
  have ne: "''/images/foo.png'' \<noteq> []" "''/index.html'' \<noteq> []" by simp_all
  have pp: "?p ''/images/foo.png'' = Some ''/images/foo.png''" "?p ''/index.html'' = Some ''/index.html''"
    by simp_all
  have a: "match ?p example_behaviors (Some ''/images/foo.png'') = Inr (Some (snd (example_behaviors ! 0)))"
    using match_first_pattern [where URL_pathname = ?p and u = "''/images/foo.png''"
        and p = "''/images/foo.png''" and bs = example_behaviors,
        OF ne(1) pp(1), THEN conjunct1, rule_format, of 0]
    by (simp add: l r0)
  have b: "match ?p example_behaviors (Some ''/index.html'') = Inr (Some (snd (example_behaviors ! 1)))"
    using match_first_pattern [where URL_pathname = ?p and u = "''/index.html''"
        and p = "''/index.html''" and bs = example_behaviors,
        OF ne(2) pp(2), THEN conjunct1, rule_format, of 1]
    by (simp add: l r0 r1)
  have c: "match ?p (butlast example_behaviors) (Some ''/index.html'') = Inr None"
    using match_first_pattern [where URL_pathname = ?p and u = "''/index.html''"
        and p = "''/index.html''" and bs = "butlast example_behaviors",
        OF ne(2) pp(2), THEN conjunct2, THEN conjunct1]
    by (simp add: example_behaviors_def new_FunctionSet_def)
  show ?thesis by (simp add: a b c p0 p1)
qed

section \<open>Origin resolver\<close>

lemma retrieve_file:
  assumes "otype orig = type_file"
  shows "retrieve env orig ev =
     (case fs env (fileTarget env orig (uri (request ev))) of
        Some (RegularFile contents) \<Rightarrow>
          \<lparr>status = StatusString ''200'', statusDescription = Some [],
           headers = Some jsonContentType, bodyEncoding = Some ''text'', body = Some contents\<rparr>
      | Some NotRegular \<Rightarrow>
          \<lparr>status = StatusNumber 500,
           statusDescription = Some (fileTarget env orig (uri (request ev)) @ '' is not a file.''),
           headers = Some jsonContentType, bodyEncoding = Some ''text'',
           body = Some (JSON_stringify env [(''code'', JNumber 500),
             (''message'', JString (fileTarget env orig (uri (request ev)) @ '' is not a file.''))])\<rparr>
      | None \<Rightarrow>
          \<lparr>status = StatusNumber 500,
           statusDescription = Some (fileTarget env orig (uri (request ev)) @ '' does not exist.''),
           headers = Some jsonContentType, bodyEncoding = Some ''text'',
           body = Some (JSON_stringify env [(''code'', JNumber 500),
             (''message'', JString (fileTarget env orig (uri (request ev)) @ '' does not exist.''))])\<rparr>)"
  using assms
  by (simp add: retrieve_def getResource_def getFileResource_def NotFoundError_def Let_def
      split: option.splits fs_node.splits)

text \<open>
  What \<open>retrieve\<close> answers for an origin of kind \<open>file\<close>: always a response. When the
  target (the base directory joined with the path of the request's URI) does not exist
  or is not a regular file, \<open>getFileResource\<close> throws a \<open>NotFoundError\<close>, which has
  no \<open>isBoom\<close>: the response has status 500 and its body is the JSON of
  \<open>{code: 500, message}\<close>, the message being the target followed by
  \<open>does not exist.\<close> or \<open>is not a file.\<close>; when the target is a regular file, the
  response has status \<open>'200'\<close> and the file's contents as its body.
\<close>

lemma retrieve_file_origin:
  assumes "otype orig = type_file"
  shows
    "(fs env (fileTarget env orig (uri (request ev))) = None \<longrightarrow>
        getFileResource env orig (uri (request ev)) =
          Inl (NotFoundError (fileTarget env orig (uri (request ev)) @ '' does not exist.'')) \<and>
        status (retrieve env orig ev) = StatusNumber 500 \<and>
        body (retrieve env orig ev) =
          Some (JSON_stringify env [(''code'', JNumber 500),
             (''message'', JString (fileTarget env orig (uri (request ev)) @ '' does not exist.''))])) \<and>
     (fs env (fileTarget env orig (uri (request ev))) = Some NotRegular \<longrightarrow>
        getFileResource env orig (uri (request ev)) =
          Inl (NotFoundError (fileTarget env orig (uri (request ev)) @ '' is not a file.'')) \<and>
        status (retrieve env orig ev) = StatusNumber 500 \<and>
        body (retrieve env orig ev) =
          Some (JSON_stringify env [(''code'', JNumber 500),
             (''message'', JString (fileTarget env orig (uri (request ev)) @ '' is not a file.''))])) \<and>
     (\<forall>contents. fs env (fileTarget env orig (uri (request ev))) = Some (RegularFile contents) \<longrightarrow>
        status (retrieve env orig ev) = StatusString ''200'' \<and>
        body (retrieve env orig ev) = Some contents)"
  by (simp add: retrieve_file [OF assms] getFileResource_def)

text \<open>
  C9, at the file origin under \<open>/srv\<close>, where \<open>/srv/missing.html\<close> does not exist,
  \<open>/srv/assets\<close> is a directory and \<open>/srv/index.html\<close> is a regular file:
  \<open>retrieve\<close> returns a response for each of the three URIs. For the missing target
  the failure is the \<open>NotFoundError\<close>, of status code 404, but the response has
  status 500 and the body \<open>{code: 500, message}\<close>, the message naming the target; so
  for the directory; for the regular file the response has status \<open>'200'\<close> and the
  file's contents as body.
\<close>

theorem retrieve_file_origin_status:
  "otype (new_Origin example_platform None ''/srv'') = type_file \<and>
   getResource example_platform (new_Origin example_platform None ''/srv'')
      (request (example_event ''GET'' ''/missing.html'')) =
     Inl (HttpError 404 ''/srv/missing.html does not exist.'') \<and>
   status (retrieve example_platform (new_Origin example_platform None ''/srv'')
      (example_event ''GET'' ''/missing.html'')) = StatusNumber 500 \<and>
   body (retrieve example_platform (new_Origin example_platform None ''/srv'')
      (example_event ''GET'' ''/missing.html'')) =
     Some (stringifyPlain [(''code'', JNumber 500),
        (''message'', JString ''/srv/missing.html does not exist.'')]) \<and>
   status (retrieve example_platform (new_Origin example_platform None ''/srv'')
      (example_event ''GET'' ''/assets'')) = StatusNumber 500 \<and>
   body (retrieve example_platform (new_Origin example_platform None ''/srv'')
      (example_event ''GET'' ''/assets'')) =
     Some (stringifyPlain [(''code'', JNumber 500),
        (''message'', JString ''/srv/assets is not a file.'')]) \<and>
   status (retrieve example_platform (new_Origin example_platform None ''/srv'')
      (example_event ''GET'' ''/index.html'')) = StatusString ''200'' \<and>
   body (retrieve example_platform (new_Origin example_platform None ''/srv'')
      (example_event ''GET'' ''/index.html'')) = Some ''<html></html>''"
  by (simp add: retrieve_def getResource_def getFileResource_def fileTarget_def
      NotFoundError_def new_Origin_def example_platform_def example_event_def Let_def)

end
